theory Spec2Isabelle
  imports Main
begin

section \<open>Data model\<close>

text \<open>
  A claim attempt as both source files declare it (\<^verbatim>\<open>interface ClaimAttempt\<close> in the
  history modal, the inline attempt type of the route handlers). A timestamp is the value of
  \<^verbatim>\<open>new Date(attempt.timestamp).getTime()\<close>: milliseconds since the epoch, an integer.
  The stored timestamps are dates of the user documents and reach the client as their ISO
  strings, so every one of them denotes an instant; the unparseable date is not a value of
  this model.
\<close>

record claim_attempt =
  attempt_identifier :: string
  success :: bool
  timestamp :: int
  item_id :: "string option"

text \<open>\<^verbatim>\<open>interface ClaimAttemptWithUser\<close> of the GET handler: an attempt annotated with its user.\<close>

record claim_attempt_with_user = claim_attempt +
  userEmail :: string
  userName :: "string option"

text \<open>
  A user document, with the fields the handlers select. \<^verbatim>\<open>claim_attempts\<close> may be missing
  from a document: both handlers test for it.
\<close>

record user_doc =
  uid :: string
  email :: string
  name :: "string option"
  claim_attempts :: "claim_attempt list option"

section \<open>Rate-limit computation (history modal)\<close>

text \<open>\<^verbatim>\<open>new Date(now.getTime() - 15 * 60 * 1000)\<close>, in both source files.\<close>

definition windowStart :: "int \<Rightarrow> int" where
  "windowStart now = now - 15 * 60 * 1000"

record rate_limit =
  recentFailedAttempts :: nat
  isRateLimited :: bool
  remainingAttempts :: int

text \<open>
  \<^verbatim>\<open>calculateRateLimit\<close>. The component reads the attempt list from its state and the
  clock from \<^verbatim>\<open>new Date()\<close>; here both are arguments.
\<close>

definition calculateRateLimit :: "claim_attempt list \<Rightarrow> int \<Rightarrow> rate_limit" where
  "calculateRateLimit claimAttempts now =
     (let recent = filter (\<lambda>attempt. \<not> success attempt \<and> windowStart now \<le> timestamp attempt)
                     claimAttempts
      in \<lparr> recentFailedAttempts = length recent,
           isRateLimited = (10 \<le> length recent),
           remainingAttempts = max 0 (10 - int (length recent)) \<rparr>)"

text \<open>
  The count the specification describes: failed attempts whose timestamp lies in the closed
  window from fifteen minutes before \<open>now\<close> up to \<open>now\<close>.
\<close>

definition spec_recent_failed :: "claim_attempt list \<Rightarrow> int \<Rightarrow> nat" where
  "spec_recent_failed claimAttempts now =
     length (filter (\<lambda>attempt. \<not> success attempt \<and> now - 900000 \<le> timestamp attempt
                                 \<and> timestamp attempt \<le> now) claimAttempts)"

section \<open>Clearing claim attempts (POST handler)\<close>

text \<open>
  The branch on \<^verbatim>\<open>clearType\<close> of the POST handler, in the source's order: \<^verbatim>\<open>failed\<close>,
  then \<^verbatim>\<open>rate-limit\<close>, and everything else empties the list.
\<close>

definition clear_claim_attempts :: "string \<Rightarrow> int \<Rightarrow> claim_attempt list \<Rightarrow> claim_attempt list" where
  "clear_claim_attempts clearType now attempts =
     (if clearType = ''failed'' then filter (\<lambda>attempt. success attempt) attempts
      else if clearType = ''rate-limit'' then
        filter (\<lambda>attempt. success attempt \<or> timestamp attempt < windowStart now) attempts
      else [])"

section \<open>Sessions, requests, responses and the store\<close>

text \<open>
  The session of \<^verbatim>\<open>auth0.getSession()\<close>: it may be absent, it may lack a user, and the
  user's email is optional.
\<close>

record auth_user =
  user_email :: "string option"

record auth_session =
  session_user :: "auth_user option"

text \<open>\<^verbatim>\<open>session?.user\<close>\<close>

definition session_user_of :: "auth_session option \<Rightarrow> auth_user option" where
  "session_user_of session = (case session of None \<Rightarrow> None | Some s \<Rightarrow> session_user s)"

text \<open>
  JavaScript truthiness of an optional string: a missing value and the empty string are
  falsy, every other string is truthy.
\<close>

definition truthy :: "string option \<Rightarrow> bool" where
  "truthy v = (case v of None \<Rightarrow> False | Some s \<Rightarrow> s \<noteq> [])"

text \<open>
  The parsed JSON body of a clear request, \<^verbatim>\<open>{ userEmail, clearType }\<close>; either field may
  be missing. The client sends strings for both. The handler receives a
  \<open>clear_body option\<close>: \<open>None\<close> is a request for which
  \<^verbatim>\<open>const { userEmail, clearType } = await request.json()\<close> throws (no body, a body that
  is not JSON, the JSON value \<^verbatim>\<open>null\<close>).
\<close>

record clear_body =
  req_userEmail :: "string option"
  req_clearType :: "string option"

text \<open>
  The query string of a GET request. \<^verbatim>\<open>q_limit\<close> is the \<^verbatim>\<open>limit\<close> parameter when it is
  present, non-empty and a decimal integer, already through \<^verbatim>\<open>parseInt\<close>; \<open>None\<close> is the
  absent or empty parameter, for which the handler takes \<^verbatim>\<open>"100"\<close>.
\<close>

record query_params =
  q_email :: "string option"
  q_failed :: "string option"
  q_limit :: "int option"

record stats =
  totalAttempts :: nat
  failedAttempts :: nat
  successfulAttempts :: nat
  uniqueUsers :: nat

text \<open>
  What a handler returns: \<^verbatim>\<open>{ error }\<close> with its status, or one of the two success bodies
  (status 200).
\<close>

datatype response =
    ErrorResponse nat string
  | ClearResponse string
  | QueryResponse "claim_attempt_with_user list" stats

text \<open>The counts the POST handler hands to \<^verbatim>\<open>sanitizeDataForLogging\<close>.\<close>

record audit_data =
  claimAttemptsCount :: nat
  failedAttemptsCount :: nat

text \<open>The argument of \<^verbatim>\<open>logAdminAction\<close>, without the raw request object.\<close>

record audit_entry =
  adminEmail :: string
  action :: string
  resourceType :: string
  targetUserEmail :: string
  resourceId :: string
  details_clearType :: string
  attemptsClearedCount :: int
  previousData :: audit_data
  newData :: audit_data

text \<open>
  The state the handlers work on: the user collection in the order of the store, and the
  audit log.
\<close>

record store =
  users :: "user_doc list"
  audit_log :: "audit_entry list"

text \<open>
  Modelled from the spec: \<^verbatim>\<open>logAdminAction\<close> lives in the audit logger module, which is not
  among the sources; the audit log writer "records admin mutations with before/after
  snapshots", so it appends the entry it is given.
\<close>

definition logAdminAction :: "audit_entry \<Rightarrow> store \<Rightarrow> store" where
  "logAdminAction entry st = st\<lparr>audit_log := audit_log st @ [entry]\<rparr>"

text \<open>
  \<^verbatim>\<open>User.findOne({ email })\<close>: the first matching document, with its position in the
  collection, which stands for the document's identity when it is saved.
\<close>

fun findOne :: "string \<Rightarrow> user_doc list \<Rightarrow> (nat \<times> user_doc) option" where
  "findOne e [] = None"
| "findOne e (u # us) =
     (if email u = e then Some (0, u)
      else (case findOne e us of None \<Rightarrow> None | Some (i, v) \<Rightarrow> Some (Suc i, v)))"

text \<open>\<^verbatim>\<open>user.save()\<close>\<close>

definition save :: "nat \<Rightarrow> user_doc \<Rightarrow> store \<Rightarrow> store" where
  "save i u st = st\<lparr>users := (users st)[i := u]\<rparr>"

definition validClearTypes :: "string list" where
  "validClearTypes = [''failed'', ''all'', ''rate-limit'']"

text \<open>\<^verbatim>\<open>actionMap\<close> and \<^verbatim>\<open>messageMap\<close> of the POST handler, read at a valid clear type.\<close>

definition actionMap :: "string \<Rightarrow> string" where
  "actionMap clearType =
     (if clearType = ''failed'' then ''CLEAR_CLAIM_ATTEMPTS_FAILED''
      else if clearType = ''all'' then ''CLEAR_CLAIM_ATTEMPTS_ALL''
      else ''RESET_RATE_LIMIT'')"

definition messageMap :: "string \<Rightarrow> string" where
  "messageMap clearType =
     (if clearType = ''failed'' then ''failed''
      else if clearType = ''all'' then ''all''
      else ''rate limit (recent failed attempts)'')"

text \<open>The error text of an unrecognised clear type; \<open>CHR 0x27\<close> is the single quote.\<close>

definition invalid_clear_type :: string where
  "invalid_clear_type =
     ''Invalid clear type. Must be '' @ [CHR 0x27] @ ''failed'' @ [CHR 0x27] @ '', ''
       @ [CHR 0x27] @ ''all'' @ [CHR 0x27] @ '', or '' @ [CHR 0x27] @ ''rate-limit'' @ [CHR 0x27]"

definition count_data :: "claim_attempt list \<Rightarrow> audit_data" where
  "count_data attempts =
     \<lparr> claimAttemptsCount = length attempts,
       failedAttemptsCount = length (filter (\<lambda>attempt. \<not> success attempt) attempts) \<rparr>"

text \<open>
  Modelled from the spec: \<^verbatim>\<open>sanitizeDataForLogging\<close> lives in the audit logger module,
  which is not among the sources. The handler gives it an object with the two counts and
  nothing else; the audit record is specified as "capturing pre/post attempt counts and
  failed-attempt counts", so the two counts come back as they went in.
\<close>

definition sanitizeDataForLogging :: "audit_data \<Rightarrow> audit_data" where
  "sanitizeDataForLogging d = d"

text \<open>
  The POST handler. \<open>sanitize\<close> is \<^verbatim>\<open>sanitizeDataForLogging\<close> (audit logger module, not
  among the sources), \<open>is_admin\<close> the result of \<^verbatim>\<open>isAdmin()\<close>, \<open>now\<close> the clock read in the
  \<^verbatim>\<open>rate-limit\<close> branch. The checks come in the source's order: session, admin, reading
  the body, email, clear type, user lookup. Reading the body is inside the \<^verbatim>\<open>try\<close>: when it
  throws, the catch-all answers 500. The catch-all also answers exceptions of the session,
  database and logging services, which are not part of this model.
\<close>

definition POST ::
  "(audit_data \<Rightarrow> audit_data) \<Rightarrow> auth_session option \<Rightarrow> bool \<Rightarrow> int \<Rightarrow> clear_body option
     \<Rightarrow> store \<Rightarrow> response \<times> store" where
  "POST sanitize session is_admin now request st =
     (case session_user_of session of
        None \<Rightarrow> (ErrorResponse 401 ''Unauthorized'', st)
      | Some su \<Rightarrow>
          if \<not> is_admin then (ErrorResponse 403 ''Forbidden: Admin access required'', st)
          else (case request of
             None \<Rightarrow> (ErrorResponse 500 ''Internal server error'', st)
           | Some body \<Rightarrow>
          (case req_userEmail body of
             None \<Rightarrow> (ErrorResponse 400 ''User email is required'', st)
           | Some userEmail' \<Rightarrow>
               if userEmail' = [] then (ErrorResponse 400 ''User email is required'', st)
               else (case req_clearType body of
                  None \<Rightarrow> (ErrorResponse 400 invalid_clear_type, st)
                | Some clearType \<Rightarrow>
                    if clearType \<notin> set validClearTypes then
                      (ErrorResponse 400 invalid_clear_type, st)
                    else (case findOne userEmail' (users st) of
                       None \<Rightarrow> (ErrorResponse 404 ''User not found'', st)
                     | Some (i, user) \<Rightarrow>
                         (let previousAttempts =
                                (case claim_attempts user of None \<Rightarrow> [] | Some as \<Rightarrow> as);
                              previousData' = sanitize (count_data previousAttempts);
                              newAttempts = clear_claim_attempts clearType now previousAttempts;
                              st1 = save i (user\<lparr>claim_attempts := Some newAttempts\<rparr>) st;
                              newData' = sanitize (count_data newAttempts);
                              st2 = (if truthy (user_email su) then
                                       logAdminAction
                                         \<lparr> adminEmail = (case user_email su of None \<Rightarrow> [] | Some a \<Rightarrow> a),
                                           action = actionMap clearType,
                                           resourceType = ''claimAttempts'',
                                           targetUserEmail = userEmail',
                                           resourceId = uid user,
                                           details_clearType = clearType,
                                           attemptsClearedCount =
                                             int (length previousAttempts) - int (length newAttempts),
                                           previousData = previousData',
                                           newData = newData' \<rparr> st1
                                     else st1)
                          in (ClearResponse
                                (''Cleared '' @ messageMap clearType @ '' claim attempts for ''
                                   @ userEmail'), st2)))))))"

section \<open>Querying claim attempts (GET handler)\<close>

text \<open>
  The query \<^verbatim>\<open>User.find(query).sort({ "claim_attempts.timestamp": -1 }).limit(limit)\<close> is
  run by the database, with its documented meaning: a descending sort on a field of an
  embedded array orders the documents by the greatest value in the array, documents with no
  value last; \<^verbatim>\<open>limit\<close> bounds the number of DOCUMENTS returned, \<open>0\<close> meaning no bound and a
  negative number its absolute value. Documents with equal keys keep the order of the store.
\<close>

fun latest_timestamp :: "claim_attempt list \<Rightarrow> int option" where
  "latest_timestamp [] = None"
| "latest_timestamp (a # as) =
     (case latest_timestamp as of None \<Rightarrow> Some (timestamp a)
      | Some t \<Rightarrow> Some (max (timestamp a) t))"

definition sort_value :: "user_doc \<Rightarrow> int option" where
  "sort_value u = (case claim_attempts u of None \<Rightarrow> None | Some as \<Rightarrow> latest_timestamp as)"

text \<open>\<open>sorts_before x y\<close>: \<open>x\<close> comes strictly before \<open>y\<close> in the descending order.\<close>

fun sorts_before :: "int option \<Rightarrow> int option \<Rightarrow> bool" where
  "sorts_before None _ = False"
| "sorts_before (Some s) None = True"
| "sorts_before (Some s) (Some t) = (t < s)"

fun insert_user :: "user_doc \<Rightarrow> user_doc list \<Rightarrow> user_doc list" where
  "insert_user u [] = [u]"
| "insert_user u (v # vs) =
     (if sorts_before (sort_value v) (sort_value u) then v # insert_user u vs else u # v # vs)"

definition sort_users :: "user_doc list \<Rightarrow> user_doc list" where
  "sort_users us = foldr insert_user us []"

definition limit_docs :: "int \<Rightarrow> 'a list \<Rightarrow> 'a list" where
  "limit_docs limit xs = (if limit = 0 then xs else take (nat \<bar>limit\<bar>) xs)"

text \<open>\<^verbatim>\<open>const query = email ? { email } : {}\<close>\<close>

definition matches :: "string option \<Rightarrow> user_doc \<Rightarrow> bool" where
  "matches email' u = (if truthy email' then Some (email u) = email' else True)"

definition User_find :: "string option \<Rightarrow> int \<Rightarrow> user_doc list \<Rightarrow> user_doc list" where
  "User_find email' limit us = limit_docs limit (sort_users (filter (matches email') us))"

text \<open>The inner \<^verbatim>\<open>forEach\<close>: the attempts of one user that pass the filter, annotated.\<close>

definition annotate :: "user_doc \<Rightarrow> claim_attempt \<Rightarrow> claim_attempt_with_user" where
  "annotate user attempt =
     \<lparr> attempt_identifier = attempt_identifier attempt, success = success attempt,
       timestamp = timestamp attempt, item_id = item_id attempt,
       userEmail = email user, userName = name user \<rparr>"

definition user_attempts :: "bool \<Rightarrow> user_doc \<Rightarrow> claim_attempt_with_user list" where
  "user_attempts failedOnly user =
     (case claim_attempts user of
        None \<Rightarrow> []
      | Some as \<Rightarrow> map (annotate user) (filter (\<lambda>attempt. \<not> failedOnly \<or> \<not> success attempt) as))"

text \<open>
  \<^verbatim>\<open>claimAttempts.sort((a, b) => b.timestamp - a.timestamp)\<close>: the array sort is stable, and
  so is \<^const>\<open>sort_key\<close>.
\<close>

definition sort_desc :: "claim_attempt_with_user list \<Rightarrow> claim_attempt_with_user list" where
  "sort_desc xs = sort_key (\<lambda>a. - timestamp a) xs"

text \<open>\<^verbatim>\<open>xs.slice(0, limit)\<close>: a negative end counts from the end of the array.\<close>

definition slice0 :: "int \<Rightarrow> 'a list \<Rightarrow> 'a list" where
  "slice0 limit xs =
     (if 0 \<le> limit then take (nat limit) xs else take (nat (int (length xs) + limit)) xs)"

definition compute_stats :: "claim_attempt_with_user list \<Rightarrow> stats" where
  "compute_stats claimAttempts =
     \<lparr> totalAttempts = length claimAttempts,
       failedAttempts = length (filter (\<lambda>attempt. \<not> success attempt) claimAttempts),
       successfulAttempts = length (filter (\<lambda>attempt. success attempt) claimAttempts),
       uniqueUsers = length (remdups (map userEmail claimAttempts)) \<rparr>"

definition GET :: "auth_session option \<Rightarrow> bool \<Rightarrow> query_params \<Rightarrow> store \<Rightarrow> response" where
  "GET session is_admin q st =
     (case session_user_of session of
        None \<Rightarrow> ErrorResponse 401 ''Unauthorized''
      | Some su \<Rightarrow>
          if \<not> is_admin then ErrorResponse 403 ''Forbidden: Admin access required''
          else
            (let failedOnly = (q_failed q = Some ''true'');
                 limit = (case q_limit q of None \<Rightarrow> 100 | Some n \<Rightarrow> n);
                 found = User_find (q_email q) limit (users st);
                 claimAttempts = slice0 limit (sort_desc (concat (map (user_attempts failedOnly) found)))
             in QueryResponse claimAttempts (compute_stats claimAttempts)))"

text \<open>
  The list the specification describes: the attempts of ALL matching users, flattened and
  annotated, failed ones only when asked, sorted by timestamp descending, cut to the limit.
\<close>

definition spec_query :: "string option \<Rightarrow> bool \<Rightarrow> nat \<Rightarrow> user_doc list \<Rightarrow> claim_attempt_with_user list" where
  "spec_query email' failedOnly limit us =
     take limit (sort_desc (concat (map (user_attempts failedOnly) (filter (matches email') us))))"

section \<open>Auxiliary facts\<close>

lemma findOne_Some:
  "findOne e us = Some (i, u) \<Longrightarrow> i < length us \<and> us ! i = u \<and> email u = e"
proof (induction us arbitrary: i)
  case Nil
  then show ?case by simp
next
  case (Cons v vs)
  show ?case
  proof (cases "email v = e")
    case True
    with Cons.prems show ?thesis by simp
  next
    case False
    with Cons.prems obtain j where j: "findOne e vs = Some (j, u)" and i: "i = Suc j"
      by (auto split: option.splits)
    from Cons.IH [OF j] i show ?thesis by simp
  qed
qed


text \<open>Saving a document with the same email at the position found leaves it the first match.\<close>

lemma findOne_update:
  "findOne e us = Some (i, u) \<Longrightarrow> email u' = e \<Longrightarrow> findOne e (us[i := u']) = Some (i, u')"
proof (induction us arbitrary: i)
  case Nil
  then show ?case by simp
next
  case (Cons v vs)
  show ?case
  proof (cases "email v = e")
    case True
    with Cons.prems show ?thesis by simp
  next
    case False
    with Cons.prems obtain j where j: "findOne e vs = Some (j, u)" and i: "i = Suc j"
      by (auto split: option.splits)
    from Cons.IH [OF j Cons.prems(2)] i False show ?thesis by simp
  qed
qed

text \<open>A request that passes every check answers with the confirmation and saves the cleared list.\<close>

lemma POST_success:
  assumes "session_user_of session = Some su" and "is_admin"
    and "req_userEmail body = Some e" and "e \<noteq> []"
    and "req_clearType body = Some ct" and "ct \<in> set validClearTypes"
    and "findOne e (users st) = Some (i, u)"
  shows "fst (POST sanitize session is_admin now (Some body) st)
           = ClearResponse (''Cleared '' @ messageMap ct @ '' claim attempts for '' @ e)"
    and "users (snd (POST sanitize session is_admin now (Some body) st))
           = (users st)[i := u\<lparr>claim_attempts := Some (clear_claim_attempts ct now
                (case claim_attempts u of None \<Rightarrow> [] | Some as \<Rightarrow> as))\<rparr>]"
  using assms
  by (simp_all add: POST_def Let_def save_def logAdminAction_def)

text \<open>Every other request is answered with an error and leaves the store as it was.\<close>

lemma POST_cases:
  "(\<exists>c m. POST sanitize session is_admin now request st = (ErrorResponse c m, st))
   \<or> (\<exists>su body e ct i u. session_user_of session = Some su \<and> is_admin \<and> request = Some body
          \<and> req_userEmail body = Some e \<and> e \<noteq> [] \<and> req_clearType body = Some ct
          \<and> ct \<in> set validClearTypes \<and> findOne e (users st) = Some (i, u))"
  by (auto simp: POST_def split: option.splits)

section \<open>The rate-limit computation\<close>

text \<open>
  C1, as the code has it. \<^verbatim>\<open>recentFailedAttempts\<close> is the number of attempts with
  \<^verbatim>\<open>success = false\<close> and a timestamp at or after fifteen minutes before \<open>now\<close>: the filter
  has a lower bound only, so a failed attempt stamped later than \<open>now\<close> is counted as well.
  \<^verbatim>\<open>isRateLimited\<close> is \<open>recentFailedAttempts \<ge> 10\<close> and \<^verbatim>\<open>remainingAttempts\<close> is
  \<open>max(0, 10 - recentFailedAttempts)\<close>, for every attempt list and every time. When no
  attempt is stamped later than \<open>now\<close>, the count is the count over the closed window
  from \<open>now - 15 min\<close> to \<open>now\<close>.
\<close>

theorem calculateRateLimit_counts:
  "recentFailedAttempts (calculateRateLimit claimAttempts now) =
     length (filter (\<lambda>attempt. \<not> success attempt \<and> now - 900000 \<le> timestamp attempt) claimAttempts)
   \<and> isRateLimited (calculateRateLimit claimAttempts now) =
       (10 \<le> recentFailedAttempts (calculateRateLimit claimAttempts now))
   \<and> remainingAttempts (calculateRateLimit claimAttempts now) =
       max 0 (10 - int (recentFailedAttempts (calculateRateLimit claimAttempts now)))
   \<and> ((\<forall>attempt \<in> set claimAttempts. timestamp attempt \<le> now) \<longrightarrow>
        recentFailedAttempts (calculateRateLimit claimAttempts now) = spec_recent_failed claimAttempts now)"
proof -
  have ws: "windowStart now = now - 900000"
    by (simp add: windowStart_def)
  have "(\<forall>attempt \<in> set claimAttempts. timestamp attempt \<le> now) \<longrightarrow>
      filter (\<lambda>attempt. \<not> success attempt \<and> now - 900000 \<le> timestamp attempt) claimAttempts
      = filter (\<lambda>attempt. \<not> success attempt \<and> now - 900000 \<le> timestamp attempt
                                 \<and> timestamp attempt \<le> now) claimAttempts"
    by (auto intro: filter_cong)
  then show ?thesis
    by (simp add: calculateRateLimit_def Let_def ws spec_recent_failed_def)
qed

text \<open>
  An instance: at \<open>now = 2000000\<close>, of a failed attempt 500 seconds old, a failed attempt
  1900 seconds old and a recent successful one, exactly the first is counted, by the code
  and by the closed window alike.
\<close>

theorem calculateRateLimit_counts_witness:
  "recentFailedAttempts (calculateRateLimit
      [\<lparr>attempt_identifier = ''A1'', success = False, timestamp = 1500000, item_id = None\<rparr>,
       \<lparr>attempt_identifier = ''A2'', success = False, timestamp = 100000, item_id = None\<rparr>,
       \<lparr>attempt_identifier = ''A3'', success = True, timestamp = 1900000, item_id = Some ''h7''\<rparr>] 2000000) = 1
   \<and> spec_recent_failed
      [\<lparr>attempt_identifier = ''A1'', success = False, timestamp = 1500000, item_id = None\<rparr>,
       \<lparr>attempt_identifier = ''A2'', success = False, timestamp = 100000, item_id = None\<rparr>,
       \<lparr>attempt_identifier = ''A3'', success = True, timestamp = 1900000, item_id = Some ''h7''\<rparr>] 2000000 = 1"
  using calculateRateLimit_counts [of
      "[\<lparr>attempt_identifier = ''A1'', success = False, timestamp = 1500000, item_id = None\<rparr>,
       \<lparr>attempt_identifier = ''A2'', success = False, timestamp = 100000, item_id = None\<rparr>,
       \<lparr>attempt_identifier = ''A3'', success = True, timestamp = 1900000, item_id = Some ''h7''\<rparr>]" 2000000]
  by simp

text \<open>
  The window of C1 as it is stated, closed at \<open>now\<close>, is not what the code counts: a failed
  attempt stamped one millisecond after \<open>now\<close> (the server's clock ahead of the browser's)
  is outside the window and is counted by \<^const>\<open>calculateRateLimit\<close>.
\<close>

theorem calculateRateLimit_future_counterexample:
  "recentFailedAttempts (calculateRateLimit
      [\<lparr>attempt_identifier = ''A1'', success = False, timestamp = 2000001, item_id = None\<rparr>] 2000000)
   \<noteq> spec_recent_failed
      [\<lparr>attempt_identifier = ''A1'', success = False, timestamp = 2000001, item_id = None\<rparr>] 2000000"
  by (simp add: calculateRateLimit_def spec_recent_failed_def windowStart_def)

text \<open>
  C4: appending one failed attempt whose timestamp lies in the fifteen-minute window never
  decreases \<^verbatim>\<open>recentFailedAttempts\<close> and never increases \<^verbatim>\<open>remainingAttempts\<close>, for every
  attempt list and every time.
\<close>

theorem calculateRateLimit_monotonic:
  assumes "\<not> success attempt" and "windowStart now \<le> timestamp attempt" and "timestamp attempt \<le> now"
  shows "recentFailedAttempts (calculateRateLimit claimAttempts now)
           \<le> recentFailedAttempts (calculateRateLimit (claimAttempts @ [attempt]) now)
         \<and> remainingAttempts (calculateRateLimit (claimAttempts @ [attempt]) now)
           \<le> remainingAttempts (calculateRateLimit claimAttempts now)"
  using assms by (simp add: calculateRateLimit_def Let_def)

text \<open>An instance: a failed attempt five minutes old appended to a list with one failed attempt.\<close>

theorem calculateRateLimit_monotonic_witness:
  "recentFailedAttempts (calculateRateLimit
      [\<lparr>attempt_identifier = ''A1'', success = False, timestamp = 1500000, item_id = None\<rparr>] 2000000)
   \<le> recentFailedAttempts (calculateRateLimit
      ([\<lparr>attempt_identifier = ''A1'', success = False, timestamp = 1500000, item_id = None\<rparr>]
        @ [\<lparr>attempt_identifier = ''A2'', success = False, timestamp = 1700000, item_id = None\<rparr>]) 2000000)
   \<and> remainingAttempts (calculateRateLimit
      ([\<lparr>attempt_identifier = ''A1'', success = False, timestamp = 1500000, item_id = None\<rparr>]
        @ [\<lparr>attempt_identifier = ''A2'', success = False, timestamp = 1700000, item_id = None\<rparr>]) 2000000)
   \<le> remainingAttempts (calculateRateLimit
      [\<lparr>attempt_identifier = ''A1'', success = False, timestamp = 1500000, item_id = None\<rparr>] 2000000)"
proof -
  let ?a = "\<lparr>attempt_identifier = ''A2'', success = False, timestamp = 1700000, item_id = None\<rparr>"
  have h1: "\<not> success ?a" and h2: "windowStart 2000000 \<le> timestamp ?a" and h3: "timestamp ?a \<le> 2000000"
    by (simp_all add: windowStart_def)
  show ?thesis
    by (rule calculateRateLimit_monotonic [OF h1 h2 h3])
qed

section \<open>Clearing claim attempts\<close>

text \<open>
  C2: for an admin request that names an existing user, the list stored for that user after
  the clear is, for \<^verbatim>\<open>failed\<close>, exactly the successful attempts in their original order;
  for \<^verbatim>\<open>all\<close>, the empty list whatever was stored; for \<^verbatim>\<open>rate-limit\<close>, exactly the attempts
  that are successful or older than \<open>now - 15 min\<close>, in their original order. No other
  document of the collection changes.
\<close>

theorem POST_clear_policies:
  assumes "session_user_of session = Some su" and "is_admin" and "e \<noteq> []"
    and "findOne e (users st) = Some (i, u)"
    and "old = (case claim_attempts u of None \<Rightarrow> [] | Some as \<Rightarrow> as)"
  shows "users (snd (POST sanitize session is_admin now
                  (Some \<lparr>req_userEmail = Some e, req_clearType = Some ''failed''\<rparr>) st))
           = (users st)[i := u\<lparr>claim_attempts := Some (filter (\<lambda>attempt. success attempt) old)\<rparr>]
       \<and> users (snd (POST sanitize session is_admin now
                  (Some \<lparr>req_userEmail = Some e, req_clearType = Some ''all''\<rparr>) st))
           = (users st)[i := u\<lparr>claim_attempts := Some []\<rparr>]
       \<and> users (snd (POST sanitize session is_admin now
                  (Some \<lparr>req_userEmail = Some e, req_clearType = Some ''rate-limit''\<rparr>) st))
           = (users st)[i := u\<lparr>claim_attempts :=
                Some (filter (\<lambda>attempt. success attempt \<or> timestamp attempt < now - 900000) old)\<rparr>]"
  using assms
  by (simp add: POST_def Let_def save_def logAdminAction_def validClearTypes_def
        clear_claim_attempts_def windowStart_def)

text \<open>
  The example of the specification: failed attempts 20 and 5 minutes old and a successful
  one a minute old, at \<open>now = 0\<close>; the \<^verbatim>\<open>rate-limit\<close> clear drops the 5-minute one only.
\<close>

theorem POST_clear_policies_witness:
  "users (snd (POST (\<lambda>d. d) (Some \<lparr>session_user = Some \<lparr>user_email = Some ''root@hunt.org''\<rparr>\<rparr>) True 0
       (Some \<lparr>req_userEmail = Some ''kim@hunt.org'', req_clearType = Some ''rate-limit''\<rparr>)
       \<lparr>users = [\<lparr>uid = ''u1'', email = ''kim@hunt.org'', name = None, claim_attempts = Some
           [\<lparr>attempt_identifier = ''X1'', success = False, timestamp = - 1200000, item_id = None\<rparr>,
            \<lparr>attempt_identifier = ''X2'', success = False, timestamp = - 300000, item_id = None\<rparr>,
            \<lparr>attempt_identifier = ''X3'', success = True, timestamp = - 60000, item_id = Some ''h7''\<rparr>]\<rparr>],
        audit_log = []\<rparr>))
   = [\<lparr>uid = ''u1'', email = ''kim@hunt.org'', name = None, claim_attempts = Some
           [\<lparr>attempt_identifier = ''X1'', success = False, timestamp = - 1200000, item_id = None\<rparr>,
            \<lparr>attempt_identifier = ''X3'', success = True, timestamp = - 60000, item_id = Some ''h7''\<rparr>]\<rparr>]"
proof -
  let ?as = "[\<lparr>attempt_identifier = ''X1'', success = False, timestamp = - 1200000, item_id = None\<rparr>,
            \<lparr>attempt_identifier = ''X2'', success = False, timestamp = - 300000, item_id = None\<rparr>,
            \<lparr>attempt_identifier = ''X3'', success = True, timestamp = - 60000, item_id = Some ''h7''\<rparr>]"
  let ?u = "\<lparr>uid = ''u1'', email = ''kim@hunt.org'', name = None, claim_attempts = Some ?as\<rparr>"
  let ?st = "\<lparr>users = [?u], audit_log = []\<rparr>"
  let ?su = "\<lparr>user_email = Some ''root@hunt.org''\<rparr>"
  have h1: "session_user_of (Some \<lparr>session_user = Some ?su\<rparr>) = Some ?su"
    by (simp add: session_user_of_def)
  have h2: "findOne ''kim@hunt.org'' (users ?st) = Some (0, ?u)"
    by simp
  have h3: "?as = (case claim_attempts ?u of None \<Rightarrow> [] | Some as \<Rightarrow> as)"
    by simp
  have h4: "''kim@hunt.org'' \<noteq> []"
    by simp
  from POST_clear_policies [OF h1 TrueI h4 h2 h3, of "\<lambda>d. d" 0]
  show ?thesis by simp
qed

text \<open>
  C3: the \<^verbatim>\<open>rate-limit\<close> clear is idempotent. Applied twice at the same time \<open>now\<close> it
  leaves the list it leaves when applied once; and a second \<^verbatim>\<open>rate-limit\<close> request at the
  same time, with nothing recorded in between, leaves the user collection as the first
  request left it.
\<close>

theorem rate_limit_clear_idempotent:
  "clear_claim_attempts ''rate-limit'' now (clear_claim_attempts ''rate-limit'' now attempts)
     = clear_claim_attempts ''rate-limit'' now attempts
   \<and> users (snd (POST sanitize session is_admin now (Some \<lparr>req_userEmail = e, req_clearType = Some ''rate-limit''\<rparr>)
         (snd (POST sanitize session is_admin now (Some \<lparr>req_userEmail = e, req_clearType = Some ''rate-limit''\<rparr>) st))))
     = users (snd (POST sanitize session is_admin now (Some \<lparr>req_userEmail = e, req_clearType = Some ''rate-limit''\<rparr>) st))"
proof
  show idem: "clear_claim_attempts ''rate-limit'' now (clear_claim_attempts ''rate-limit'' now attempts)
     = clear_claim_attempts ''rate-limit'' now attempts" for attempts
    by (simp add: clear_claim_attempts_def)
  let ?body = "\<lparr>req_userEmail = e, req_clearType = Some ''rate-limit''\<rparr>"
  let ?P = "POST sanitize session is_admin now (Some ?body)"
  let ?clr = "\<lambda>u. u\<lparr>claim_attempts := Some (clear_claim_attempts ''rate-limit'' now
                (case claim_attempts u of None \<Rightarrow> [] | Some as \<Rightarrow> as))\<rparr>"
  from POST_cases [of sanitize session is_admin now "Some ?body" st]
  show "users (snd (?P (snd (?P st)))) = users (snd (?P st))"
  proof
    assume "\<exists>c m. ?P st = (ErrorResponse c m, st)"
    then show ?thesis by auto
  next
    assume "\<exists>su body e ct i u. session_user_of session = Some su \<and> is_admin \<and> Some ?body = Some body
          \<and> req_userEmail body = Some e \<and> e \<noteq> [] \<and> req_clearType body = Some ct
          \<and> ct \<in> set validClearTypes \<and> findOne e (users st) = Some (i, u)"
    then obtain su e' i u where su: "session_user_of session = Some su" and adm: "is_admin"
      and e: "req_userEmail ?body = Some e'" "e' \<noteq> []"
      and ct: "req_clearType ?body = Some ''rate-limit''" "''rate-limit'' \<in> set validClearTypes"
      and f: "findOne e' (users st) = Some (i, u)"
      by auto
    have first: "users (snd (?P st)) = (users st)[i := ?clr u]"
      using POST_success(2) [OF su adm e ct f] by simp
    from findOne_Some [OF f] have "email (?clr u) = e'"
      by simp
    with f have "findOne e' ((users st)[i := ?clr u]) = Some (i, ?clr u)"
      by (rule findOne_update)
    with first have f': "findOne e' (users (snd (?P st))) = Some (i, ?clr u)"
      by simp
    have "users (snd (?P (snd (?P st)))) = (users (snd (?P st)))[i := ?clr (?clr u)]"
      using POST_success(2) [OF su adm e ct f'] by simp
    also have "?clr (?clr u) = ?clr u"
      by (simp add: idem)
    finally show ?thesis
      using first by simp
  qed
qed

text \<open>
  An instance: clearing the specification's example list a second time changes nothing.
\<close>

theorem rate_limit_clear_idempotent_witness:
  "clear_claim_attempts ''rate-limit'' 0 (clear_claim_attempts ''rate-limit'' 0
      [\<lparr>attempt_identifier = ''X1'', success = False, timestamp = - 1200000, item_id = None\<rparr>,
       \<lparr>attempt_identifier = ''X2'', success = False, timestamp = - 300000, item_id = None\<rparr>,
       \<lparr>attempt_identifier = ''X3'', success = True, timestamp = - 60000, item_id = Some ''h7''\<rparr>])
   = [\<lparr>attempt_identifier = ''X1'', success = False, timestamp = - 1200000, item_id = None\<rparr>,
      \<lparr>attempt_identifier = ''X3'', success = True, timestamp = - 60000, item_id = Some ''h7''\<rparr>]"
proof -
  have once: "clear_claim_attempts ''rate-limit'' 0
      [\<lparr>attempt_identifier = ''X1'', success = False, timestamp = - 1200000, item_id = None\<rparr>,
       \<lparr>attempt_identifier = ''X2'', success = False, timestamp = - 300000, item_id = None\<rparr>,
       \<lparr>attempt_identifier = ''X3'', success = True, timestamp = - 60000, item_id = Some ''h7''\<rparr>]
   = [\<lparr>attempt_identifier = ''X1'', success = False, timestamp = - 1200000, item_id = None\<rparr>,
      \<lparr>attempt_identifier = ''X3'', success = True, timestamp = - 60000, item_id = Some ''h7''\<rparr>]"
    by (simp add: clear_claim_attempts_def windowStart_def)
  from rate_limit_clear_idempotent [of 0
      "[\<lparr>attempt_identifier = ''X1'', success = False, timestamp = - 1200000, item_id = None\<rparr>,
       \<lparr>attempt_identifier = ''X2'', success = False, timestamp = - 300000, item_id = None\<rparr>,
       \<lparr>attempt_identifier = ''X3'', success = True, timestamp = - 60000, item_id = Some ''h7''\<rparr>]"]
  show ?thesis
    by (simp only: once)
qed

text \<open>
  C10: running the rate-limit computation, at the same time \<open>now\<close>, on what the
  \<^verbatim>\<open>rate-limit\<close> clear leaves of any attempt list gives \<^verbatim>\<open>recentFailedAttempts = 0\<close>,
  \<^verbatim>\<open>isRateLimited = false\<close> and \<^verbatim>\<open>remainingAttempts = 10\<close>.
\<close>

theorem rate_limit_clear_resets:
  "calculateRateLimit (clear_claim_attempts ''rate-limit'' now attempts) now
     = \<lparr> recentFailedAttempts = 0, isRateLimited = False, remainingAttempts = 10 \<rparr>"
proof -
  have "filter (\<lambda>attempt. \<not> success attempt \<and> windowStart now \<le> timestamp attempt)
          (clear_claim_attempts ''rate-limit'' now attempts) = []"
    by (auto simp: clear_claim_attempts_def filter_empty_conv)
  then show ?thesis
    by (simp add: calculateRateLimit_def)
qed

text \<open>An instance: eleven minutes after a failed attempt, the clear removes it and the count is 0.\<close>

theorem rate_limit_clear_resets_witness:
  "recentFailedAttempts (calculateRateLimit (clear_claim_attempts ''rate-limit'' 2000000
      [\<lparr>attempt_identifier = ''A1'', success = False, timestamp = 1340000, item_id = None\<rparr>]) 2000000) = 0"
  by (simp only: rate_limit_clear_resets rate_limit.simps)

section \<open>Validation and authorisation of the handlers\<close>



text \<open>
  C8: on both endpoints a request without an authenticated session (no session, or a
  session without a user) is answered 401, and a request of an authenticated user who is
  not an admin is answered 403, with an error body in place of the data; the POST handler
  returns the store unchanged in both cases.
\<close>

theorem admin_endpoints_reject:
  "(session_user_of session = None \<longrightarrow>
      GET session is_admin q st = ErrorResponse 401 ''Unauthorized''
      \<and> POST sanitize session is_admin now request st = (ErrorResponse 401 ''Unauthorized'', st))
   \<and> (session_user_of session \<noteq> None \<and> \<not> is_admin \<longrightarrow>
      GET session is_admin q st = ErrorResponse 403 ''Forbidden: Admin access required''
      \<and> POST sanitize session is_admin now request st
          = (ErrorResponse 403 ''Forbidden: Admin access required'', st))"
  by (auto simp: GET_def POST_def)

text \<open>
  Instances: no session and a session without a user get 401, a signed-in guest gets 403.
\<close>

theorem admin_endpoints_reject_witness:
  "GET None True \<lparr>q_email = None, q_failed = None, q_limit = None\<rparr> \<lparr>users = [], audit_log = []\<rparr>
     = ErrorResponse 401 ''Unauthorized''
   \<and> POST (\<lambda>d. d) (Some \<lparr>session_user = None\<rparr>) True 0
        (Some \<lparr>req_userEmail = Some ''kim@hunt.org'', req_clearType = Some ''all''\<rparr>)
        \<lparr>users = [], audit_log = []\<rparr>
     = (ErrorResponse 401 ''Unauthorized'', \<lparr>users = [], audit_log = []\<rparr>)
   \<and> GET (Some \<lparr>session_user = Some \<lparr>user_email = Some ''guest@hunt.org''\<rparr>\<rparr>) False
        \<lparr>q_email = None, q_failed = None, q_limit = None\<rparr> \<lparr>users = [], audit_log = []\<rparr>
     = ErrorResponse 403 ''Forbidden: Admin access required''
   \<and> POST (\<lambda>d. d) (Some \<lparr>session_user = Some \<lparr>user_email = Some ''guest@hunt.org''\<rparr>\<rparr>) False 0
        (Some \<lparr>req_userEmail = Some ''kim@hunt.org'', req_clearType = Some ''all''\<rparr>)
        \<lparr>users = [], audit_log = []\<rparr>
     = (ErrorResponse 403 ''Forbidden: Admin access required'', \<lparr>users = [], audit_log = []\<rparr>)"
proof -
  have n1: "session_user_of None = None" and n2: "session_user_of (Some \<lparr>session_user = None\<rparr>) = None"
    and s: "session_user_of (Some \<lparr>session_user = Some \<lparr>user_email = Some ''guest@hunt.org''\<rparr>\<rparr>) \<noteq> None"
    by (simp_all add: session_user_of_def)
  from admin_endpoints_reject [where session = None] n1
    admin_endpoints_reject [where session = "Some \<lparr>session_user = None\<rparr>"] n2
    admin_endpoints_reject [where session = "Some \<lparr>session_user = Some \<lparr>user_email = Some ''guest@hunt.org''\<rparr>\<rparr>"
      and is_admin = False] s
  show ?thesis by simp
qed

section \<open>The audit record and the confirmation\<close>

text \<open>
  C7, as the code has it. Every successful clear returns a confirmation message that names
  the target email and the clear type applied (each of the three clear types has its own
  wording). The audit record is written under \<^verbatim>\<open>if (adminEmail)\<close>, the email of the
  session's user: when that email is present and non-empty, the handler appends one audit
  record holding the count of attempts and the count of failed attempts of the list before
  the clear and of the list stored after it.
\<close>

theorem POST_success_audit:
  assumes "POST sanitizeDataForLogging session is_admin now (Some body) st = (ClearResponse m, st')"
    and "session_user_of session = Some su"
    and "req_userEmail body = Some e" and "req_clearType body = Some ct"
    and "findOne e (users st) = Some (i, u)"
    and "old = (case claim_attempts u of None \<Rightarrow> [] | Some as \<Rightarrow> as)"
    and "claim_attempts (users st' ! i) = Some new"
  shows "m = ''Cleared '' @ messageMap ct @ '' claim attempts for '' @ e
       \<and> ct \<in> set validClearTypes
       \<and> (\<forall>ct' \<in> set validClearTypes. messageMap ct' = messageMap ct \<longrightarrow> ct' = ct)
       \<and> (\<forall>a. user_email su = Some a \<and> a \<noteq> [] \<longrightarrow>
            audit_log st' = audit_log st @
              [\<lparr> adminEmail = a, action = actionMap ct, resourceType = ''claimAttempts'',
                 targetUserEmail = e, resourceId = uid u, details_clearType = ct,
                 attemptsClearedCount = int (length old) - int (length new),
                 previousData = \<lparr> claimAttemptsCount = length old,
                    failedAttemptsCount = length (filter (\<lambda>attempt. \<not> success attempt) old) \<rparr>,
                 newData = \<lparr> claimAttemptsCount = length new,
                    failedAttemptsCount = length (filter (\<lambda>attempt. \<not> success attempt) new) \<rparr> \<rparr>])"
proof -
  let ?new = "clear_claim_attempts ct now old"
  let ?st1 = "save i (u\<lparr>claim_attempts := Some ?new\<rparr>) st"
  let ?entry = "\<lambda>a. \<lparr> adminEmail = a, action = actionMap ct, resourceType = ''claimAttempts'',
                 targetUserEmail = e, resourceId = uid u, details_clearType = ct,
                 attemptsClearedCount = int (length old) - int (length ?new),
                 previousData = count_data old,
                 newData = count_data ?new \<rparr>"
  from assms(5) have i: "i < length (users st)"
    by (simp add: findOne_Some)
  from assms(1-5) have valid: "ct \<in> set validClearTypes" and ne: "e \<noteq> []" and adm: "is_admin"
    by (auto simp: POST_def split: if_splits)
  from assms(1-6) valid ne adm have
    st': "st' = (if truthy (user_email su)
                 then logAdminAction (?entry (case user_email su of None \<Rightarrow> [] | Some a \<Rightarrow> a)) ?st1
                 else ?st1)"
    and m: "m = ''Cleared '' @ messageMap ct @ '' claim attempts for '' @ e"
    by (auto simp add: POST_def Let_def sanitizeDataForLogging_def)
  from st' i assms(7) have new: "new = ?new"
    by (simp add: logAdminAction_def save_def split: if_splits)
  have inj: "\<forall>ct' \<in> set validClearTypes. messageMap ct' = messageMap ct \<longrightarrow> ct' = ct"
    using valid by (auto simp: validClearTypes_def messageMap_def)
  have log: "audit_log st' = audit_log st @ [?entry a]" if "user_email su = Some a" and "a \<noteq> []" for a
    using that st' by (simp add: truthy_def logAdminAction_def save_def)
  from new m valid inj log show ?thesis
    by (simp add: count_data_def)
qed

text \<open>
  An instance: clearing the failed attempts of a user with one failed and one successful
  attempt writes the record with the counts 2 and 1 before, 1 and 0 after.
\<close>

theorem POST_success_audit_witness:
  "POST sanitizeDataForLogging
       (Some \<lparr>session_user = Some \<lparr>user_email = Some ''root@hunt.org''\<rparr>\<rparr>) True 0
       (Some \<lparr>req_userEmail = Some ''kim@hunt.org'', req_clearType = Some ''failed''\<rparr>)
       \<lparr>users = [\<lparr>uid = ''u1'', email = ''kim@hunt.org'', name = None, claim_attempts = Some
           [\<lparr>attempt_identifier = ''X1'', success = False, timestamp = 5, item_id = None\<rparr>,
            \<lparr>attempt_identifier = ''X2'', success = True, timestamp = 7, item_id = Some ''h7''\<rparr>]\<rparr>],
        audit_log = []\<rparr>
   = (ClearResponse ''Cleared failed claim attempts for kim@hunt.org'',
       \<lparr>users = [\<lparr>uid = ''u1'', email = ''kim@hunt.org'', name = None, claim_attempts = Some
           [\<lparr>attempt_identifier = ''X2'', success = True, timestamp = 7, item_id = Some ''h7''\<rparr>]\<rparr>],
        audit_log = [\<lparr> adminEmail = ''root@hunt.org'', action = ''CLEAR_CLAIM_ATTEMPTS_FAILED'',
              resourceType = ''claimAttempts'', targetUserEmail = ''kim@hunt.org'', resourceId = ''u1'',
              details_clearType = ''failed'', attemptsClearedCount = 1,
              previousData = \<lparr> claimAttemptsCount = 2, failedAttemptsCount = 1 \<rparr>,
              newData = \<lparr> claimAttemptsCount = 1, failedAttemptsCount = 0 \<rparr> \<rparr>]\<rparr>)"
proof -
  let ?x1 = "\<lparr>attempt_identifier = ''X1'', success = False, timestamp = 5, item_id = None\<rparr>"
  let ?x2 = "\<lparr>attempt_identifier = ''X2'', success = True, timestamp = 7, item_id = Some ''h7''\<rparr>"
  let ?u = "\<lparr>uid = ''u1'', email = ''kim@hunt.org'', name = None, claim_attempts = Some [?x1, ?x2]\<rparr>"
  let ?st = "\<lparr>users = [?u], audit_log = []\<rparr>"
  let ?su = "\<lparr>user_email = Some ''root@hunt.org''\<rparr>"
  let ?body = "\<lparr>req_userEmail = Some ''kim@hunt.org'', req_clearType = Some ''failed''\<rparr>"
  let ?run = "POST sanitizeDataForLogging (Some \<lparr>session_user = Some ?su\<rparr>) True 0 (Some ?body) ?st"
  have users': "users (snd ?run) = [?u\<lparr>claim_attempts := Some [?x2]\<rparr>]"
    and fst': "\<exists>m. fst ?run = ClearResponse m"
    by (simp_all add: POST_def Let_def session_user_of_def validClearTypes_def save_def
          logAdminAction_def clear_claim_attempts_def)
  then obtain m where m: "?run = (ClearResponse m, snd ?run)"
    by (metis prod.collapse)
  have h2: "session_user_of (Some \<lparr>session_user = Some ?su\<rparr>) = Some ?su"
    by (simp add: session_user_of_def)
  have h3: "user_email ?su = Some ''root@hunt.org''" and h4: "''root@hunt.org'' \<noteq> []"
    and h5: "req_userEmail ?body = Some ''kim@hunt.org''" and h6: "req_clearType ?body = Some ''failed''"
    and h7: "findOne ''kim@hunt.org'' (users ?st) = Some (0, ?u)"
    and h8: "[?x1, ?x2] = (case claim_attempts ?u of None \<Rightarrow> [] | Some as \<Rightarrow> as)"
    by simp_all
  from users' have h9: "claim_attempts (users (snd ?run) ! 0) = Some [?x2]"
    by simp
  from POST_success_audit [OF m h2 h5 h6 h7 h8 h9] h3 h4
  have "audit_log (snd ?run) = [\<lparr> adminEmail = ''root@hunt.org'', action = ''CLEAR_CLAIM_ATTEMPTS_FAILED'',
              resourceType = ''claimAttempts'', targetUserEmail = ''kim@hunt.org'', resourceId = ''u1'',
              details_clearType = ''failed'', attemptsClearedCount = 1,
              previousData = \<lparr> claimAttemptsCount = 2, failedAttemptsCount = 1 \<rparr>,
              newData = \<lparr> claimAttemptsCount = 1, failedAttemptsCount = 0 \<rparr> \<rparr>]"
    and "m = ''Cleared failed claim attempts for kim@hunt.org''"
    by (simp_all add: actionMap_def messageMap_def)
  with users' m show ?thesis
    by (cases "snd ?run") (simp add: prod_eq_iff)
qed

text \<open>
  C7 as it is stated promises the audit record on every successful clear. The handler reads
  \<^verbatim>\<open>session.user.email\<close>, which the session leaves optional, and calls the audit writer
  only when it is set; the save before it and the confirmation after it are outside that
  test. For a session whose user has no email the clear succeeds, the list is emptied and
  the audit log stays as it was.
\<close>

theorem POST_no_audit_counterexample:
  "POST sanitizeDataForLogging (Some \<lparr>session_user = Some \<lparr>user_email = None\<rparr>\<rparr>) True 0
       (Some \<lparr>req_userEmail = Some ''kim@hunt.org'', req_clearType = Some ''all''\<rparr>)
       \<lparr>users = [\<lparr>uid = ''u1'', email = ''kim@hunt.org'', name = None, claim_attempts = Some
           [\<lparr>attempt_identifier = ''X1'', success = False, timestamp = 5, item_id = None\<rparr>]\<rparr>],
        audit_log = []\<rparr>
   = (ClearResponse ''Cleared all claim attempts for kim@hunt.org'',
       \<lparr>users = [\<lparr>uid = ''u1'', email = ''kim@hunt.org'', name = None, claim_attempts = Some []\<rparr>],
        audit_log = []\<rparr>)"
  by (simp add: POST_def Let_def session_user_of_def validClearTypes_def save_def truthy_def
        clear_claim_attempts_def messageMap_def)

section \<open>The query\<close>

text \<open>
  C9: in every successful response of the GET handler the stats are computed from the
  returned list, after it was cut to the limit: \<^verbatim>\<open>totalAttempts\<close> is its length,
  \<^verbatim>\<open>failedAttempts\<close> and \<^verbatim>\<open>successfulAttempts\<close> count its failed and its successful
  entries and add up to \<^verbatim>\<open>totalAttempts\<close>, which is at most the (non-negative) limit, 100
  when the parameter is absent.
\<close>

theorem GET_stats_describe_page:
  assumes "GET session is_admin q st = QueryResponse claimAttempts sts"
  shows "totalAttempts sts = length claimAttempts
       \<and> failedAttempts sts + successfulAttempts sts = totalAttempts sts
       \<and> failedAttempts sts = length (filter (\<lambda>attempt. \<not> success attempt) claimAttempts)
       \<and> successfulAttempts sts = length (filter (\<lambda>attempt. success attempt) claimAttempts)
       \<and> (\<forall>n. q_limit q = Some n \<and> 0 \<le> n \<longrightarrow> int (totalAttempts sts) \<le> n)
       \<and> (q_limit q = None \<longrightarrow> totalAttempts sts \<le> 100)"
proof -
  let ?limit = "case q_limit q of None \<Rightarrow> 100 | Some n \<Rightarrow> n"
  from assms obtain xs where page: "claimAttempts = slice0 ?limit xs"
    and sts: "sts = compute_stats claimAttempts"
    by (auto simp: GET_def Let_def split: option.splits if_splits)
  have sum: "length (filter (\<lambda>attempt. \<not> success attempt) claimAttempts)
      + length (filter (\<lambda>attempt. success attempt) claimAttempts) = length claimAttempts"
    using sum_length_filter_compl [of "\<lambda>attempt. success attempt" claimAttempts] by simp
  have bound: "0 \<le> ?limit \<Longrightarrow> int (length claimAttempts) \<le> ?limit"
    by (simp add: page slice0_def)
  from sts sum bound show ?thesis
    by (auto simp: compute_stats_def)
qed

text \<open>
  An instance: three attempts of one user, limit 2; the stats count the two returned.
\<close>

theorem GET_stats_describe_page_witness:
  "GET (Some \<lparr>session_user = Some \<lparr>user_email = Some ''root@hunt.org''\<rparr>\<rparr>) True
       \<lparr>q_email = None, q_failed = None, q_limit = Some 2\<rparr>
       \<lparr>users = [\<lparr>uid = ''u1'', email = ''kim@hunt.org'', name = Some ''Kim'', claim_attempts = Some
           [\<lparr>attempt_identifier = ''X1'', success = False, timestamp = 5, item_id = None\<rparr>,
            \<lparr>attempt_identifier = ''X2'', success = True, timestamp = 7, item_id = Some ''h7''\<rparr>,
            \<lparr>attempt_identifier = ''X3'', success = False, timestamp = 9, item_id = None\<rparr>]\<rparr>],
        audit_log = []\<rparr>
   = QueryResponse
       [\<lparr>attempt_identifier = ''X3'', success = False, timestamp = 9, item_id = None,
          userEmail = ''kim@hunt.org'', userName = Some ''Kim''\<rparr>,
        \<lparr>attempt_identifier = ''X2'', success = True, timestamp = 7, item_id = Some ''h7'',
          userEmail = ''kim@hunt.org'', userName = Some ''Kim''\<rparr>]
       \<lparr>totalAttempts = 2, failedAttempts = 1, successfulAttempts = 1, uniqueUsers = 1\<rparr>
   \<and> int (totalAttempts \<lparr>totalAttempts = 2, failedAttempts = 1, successfulAttempts = 1, uniqueUsers = 1\<rparr>)
       \<le> 2"
proof -
  have run: "GET (Some \<lparr>session_user = Some \<lparr>user_email = Some ''root@hunt.org''\<rparr>\<rparr>) True
       \<lparr>q_email = None, q_failed = None, q_limit = Some 2\<rparr>
       \<lparr>users = [\<lparr>uid = ''u1'', email = ''kim@hunt.org'', name = Some ''Kim'', claim_attempts = Some
           [\<lparr>attempt_identifier = ''X1'', success = False, timestamp = 5, item_id = None\<rparr>,
            \<lparr>attempt_identifier = ''X2'', success = True, timestamp = 7, item_id = Some ''h7''\<rparr>,
            \<lparr>attempt_identifier = ''X3'', success = False, timestamp = 9, item_id = None\<rparr>]\<rparr>],
        audit_log = []\<rparr>
   = QueryResponse
       [\<lparr>attempt_identifier = ''X3'', success = False, timestamp = 9, item_id = None,
          userEmail = ''kim@hunt.org'', userName = Some ''Kim''\<rparr>,
        \<lparr>attempt_identifier = ''X2'', success = True, timestamp = 7, item_id = Some ''h7'',
          userEmail = ''kim@hunt.org'', userName = Some ''Kim''\<rparr>]
       \<lparr>totalAttempts = 2, failedAttempts = 1, successfulAttempts = 1, uniqueUsers = 1\<rparr>"
    by (simp add: GET_def Let_def session_user_of_def User_find_def limit_docs_def sort_users_def
          matches_def truthy_def user_attempts_def annotate_def sort_desc_def slice0_def
          compute_stats_def)
  from GET_stats_describe_page [OF run] have
    "int (totalAttempts \<lparr>totalAttempts = 2, failedAttempts = 1, successfulAttempts = 1, uniqueUsers = 1\<rparr>) \<le> 2"
    by (simp del: stats.simps)
  with run show ?thesis by (simp del: stats.simps)
qed

text \<open>
  C6 fails on the code for a failed-only query. The limit is applied twice: first to the
  user documents, ordered by their latest attempt of any outcome, then to the flattened
  list. With \<^verbatim>\<open>failed=true\<close> and \<^verbatim>\<open>limit=1\<close>, a user whose latest attempt succeeded takes
  the only place among the documents, and the failed attempt of the other matching user,
  which the specified list consists of, is not returned.
\<close>

theorem GET_failed_only_loses_attempts:
  "GET (Some \<lparr>session_user = Some \<lparr>user_email = Some ''root@hunt.org''\<rparr>\<rparr>) True
       \<lparr>q_email = None, q_failed = Some ''true'', q_limit = Some 1\<rparr>
       \<lparr>users = [\<lparr>uid = ''u1'', email = ''kim@hunt.org'', name = None, claim_attempts = Some
                   [\<lparr>attempt_identifier = ''X1'', success = True, timestamp = 2000, item_id = Some ''h7''\<rparr>]\<rparr>,
                 \<lparr>uid = ''u2'', email = ''lee@hunt.org'', name = None, claim_attempts = Some
                   [\<lparr>attempt_identifier = ''X2'', success = False, timestamp = 1000, item_id = None\<rparr>]\<rparr>],
        audit_log = []\<rparr>
   = QueryResponse [] \<lparr>totalAttempts = 0, failedAttempts = 0, successfulAttempts = 0, uniqueUsers = 0\<rparr>
   \<and> spec_query None True 1
        [\<lparr>uid = ''u1'', email = ''kim@hunt.org'', name = None, claim_attempts = Some
                   [\<lparr>attempt_identifier = ''X1'', success = True, timestamp = 2000, item_id = Some ''h7''\<rparr>]\<rparr>,
         \<lparr>uid = ''u2'', email = ''lee@hunt.org'', name = None, claim_attempts = Some
                   [\<lparr>attempt_identifier = ''X2'', success = False, timestamp = 1000, item_id = None\<rparr>]\<rparr>]
   = [\<lparr>attempt_identifier = ''X2'', success = False, timestamp = 1000, item_id = None,
        userEmail = ''lee@hunt.org'', userName = None\<rparr>]"
  by (simp add: GET_def Let_def session_user_of_def User_find_def limit_docs_def sort_users_def
        matches_def truthy_def user_attempts_def annotate_def sort_desc_def slice0_def
        compute_stats_def spec_query_def sort_value_def)

end
